theory Spec2Isabelle
  imports Complex_Main "HOL-Library.Log_Nat"
begin

section \<open>Numbers\<close>

text \<open>
  The calculator works on JavaScript numbers, which are IEEE 754 binary64 values. In the
  model of \<open>SolarCalculator\<close> below they are real numbers: sums, products,
  quotients and square roots are exact, and the values NaN and the two infinities do
  not exist. The one place where the source produces such a value from finite input is
  an empty series (\<open>0 / 0\<close> and \<open>Math.max()\<close>); there
  \<open>calculateMetrics\<close> answers \<open>None\<close>.

  The claims about clamps, thresholds, formulas and worked examples are settled on this
  exact model. The comparison of the maximum of the readings with their mean (C9) is
  the one that rounding decides: the sum and the division that compute the mean each
  round, and the section on binary64 rounding models these two operations as JavaScript
  performs them.
\<close>

type_synonym number = real

text \<open>
  \<open>Record<string, number>\<close>: the entries of the object in the order in which
  \<open>Object.values\<close> lists them.
\<close>

type_synonym number_record = "(string \<times> number) list"

definition Object_values :: "number_record \<Rightarrow> number list" where
  "Object_values obj = map snd obj"

text \<open>\<open>values.reduce((sum, val) => sum + val, 0)\<close>\<close>

definition reduce_sum :: "number list \<Rightarrow> number" where
  "reduce_sum values = foldl (\<lambda>sum val. sum + val) 0 values"

text \<open>\<open>Math.max(...values)\<close> on a list that has a first element.\<close>

definition Math_max :: "number list \<Rightarrow> number" where
  "Math_max values = Max (set values)"

section \<open>Data model (types/solar.ts)\<close>

record SolarMetrics =
  dailyIrradiance :: number
  efficiency :: number
  temperature :: number
  peakOutput :: number
  averageOutput :: number
  variance :: number

record MissionParameters =
  panelArea :: number
  systemEfficiency :: number
  missionDuration :: number
  batteryCapacity :: "number option"

record CalculationResults =
  totalEnergyOutput :: number
  dailyAverage :: number
  peakOutput :: number
  efficiency :: number
  batteryRequired :: number
  missionViability :: bool
  recommendations :: "string list"

text \<open>
  \<open>NASAPowerResponse\<close>: \<open>geometry.coordinates\<close> and the series of
  \<open>properties.parameter\<close>, three of them optional.
\<close>

record PowerParameter =
  ALLSKY_SFC_SW_DWN :: number_record
  T2M :: number_record
  RH2M :: "number_record option"
  WS10M :: "number_record option"
  CLOUD_AMT :: "number_record option"

record NASAPowerResponse =
  coordinates :: "number \<times> number"
  parameter :: PowerParameter

section \<open>SolarCalculator\<close>

text \<open>
  A parameter whose name is also a field of one of the records above carries a prime
  (\<open>temperature'\<close>, \<open>batteryRequired'\<close>).
\<close>

subsection \<open>calculateMetrics\<close>

text \<open>
  The temperature term of \<open>calculateMetrics\<close>:
  \<open>Math.max(0, (temperature - referenceTemp) * tempCoefficient)\<close> with
  \<open>tempCoefficient = -0.004\<close> and \<open>referenceTemp = 25\<close>.
\<close>

definition tempLoss :: "number \<Rightarrow> number" where
  "tempLoss temperature' =
     (let tempCoefficient = - 0.004;
          referenceTemp = 25
      in max 0 ((temperature' - referenceTemp) * tempCoefficient))"

definition calculateVariance :: "number list \<Rightarrow> number" where
  "calculateVariance values =
     (let mean = reduce_sum values / real (length values);
          squaredDiffs = map (\<lambda>val. (val - mean) ^ 2) values
      in sqrt (reduce_sum squaredDiffs / real (length values)))"

definition calculateMetrics :: "NASAPowerResponse \<Rightarrow> SolarMetrics option" where
  "calculateMetrics nasaData =
     (let irradianceData = ALLSKY_SFC_SW_DWN (parameter nasaData);
          temperatureData = T2M (parameter nasaData);
          irradianceValues = Object_values irradianceData;
          temperatureValues = Object_values temperatureData
      in if irradianceValues = [] \<or> temperatureValues = [] then None
         else
           let dailyIrradiance = reduce_sum irradianceValues / real (length irradianceValues);
               temperature = reduce_sum temperatureValues / real (length temperatureValues);
               efficiency = max 0.1 (1 + tempLoss temperature);
               peakOutput = Math_max irradianceValues;
               averageOutput = dailyIrradiance;
               variance = calculateVariance irradianceValues
           in Some \<lparr>dailyIrradiance = dailyIrradiance,
                     efficiency = efficiency * 100,
                     temperature = temperature,
                     peakOutput = peakOutput,
                     averageOutput = averageOutput,
                     variance = variance\<rparr>)"

subsection \<open>generateRecommendations and calculateMissionEnergy\<close>

text \<open>
  \<open>recommendations.push(m)\<close> appends \<open>[m]\<close>; a branch that pushes nothing
  appends \<open>[]\<close>.
\<close>

definition generateRecommendations ::
  "SolarMetrics \<Rightarrow> MissionParameters \<Rightarrow> number \<Rightarrow> number \<Rightarrow> string list" where
  "generateRecommendations metrics parameters totalEnergy batteryRequired' =
     (let recommendations = [];
          recommendations = recommendations @
            (if dailyIrradiance metrics > 6.5
             then [''Excellent solar resource - ideal for space missions'']
             else if dailyIrradiance metrics > 4.5
             then [''Good solar resource - suitable for most applications'']
             else [''Consider high-efficiency panels or backup power systems'']);
          recommendations = recommendations @
            (if temperature metrics > 35
             then [''High temperatures detected - implement cooling systems'']
             else if temperature metrics < - 20
             then [''Extreme cold conditions - use cold-weather rated equipment'']
             else []);
          recommendations = recommendations @
            (if batteryRequired' > 2000
             then [''Large battery system required - consider modular design'']
             else []);
          recommendations = recommendations @
            (if totalEnergy < 1000
             then [''Energy output below mission requirements - increase panel area'']
             else []);
          recommendations = recommendations @
            (if systemEfficiency parameters < 0.20
             then [''Consider upgrading to higher efficiency panels (>20%)'']
             else [])
      in recommendations)"

definition calculateMissionEnergy ::
  "SolarMetrics \<Rightarrow> MissionParameters \<Rightarrow> CalculationResults" where
  "calculateMissionEnergy metrics parameters =
     (let dailyEnergyOutput =
            dailyIrradiance metrics * panelArea parameters * systemEfficiency parameters
              * (SolarMetrics.efficiency metrics / 100);
          totalEnergyOutput = dailyEnergyOutput * missionDuration parameters;
          lunarNightHours = 350;
          dailyPowerConsumption = dailyEnergyOutput / 24;
          batteryRequired = dailyPowerConsumption * lunarNightHours;
          minRequiredEnergy = 1000;
          missionViability = (totalEnergyOutput \<ge> minRequiredEnergy);
          recommendations =
            generateRecommendations metrics parameters totalEnergyOutput batteryRequired
      in \<lparr>totalEnergyOutput = totalEnergyOutput,
          dailyAverage = dailyEnergyOutput,
          peakOutput = SolarMetrics.peakOutput metrics * panelArea parameters
                         * systemEfficiency parameters,
          efficiency = SolarMetrics.efficiency metrics,
          batteryRequired = batteryRequired,
          missionViability = missionViability,
          recommendations = recommendations\<rparr>)"

subsection \<open>calculateOptimalTilt and calculateSystemLosses\<close>

definition calculateOptimalTilt :: "number \<Rightarrow> number" where
  "calculateOptimalTilt latitude = \<bar>latitude\<bar>"

text \<open>
  \<open>humidity && humidity > 80\<close>: an absent humidity and the number 0 are falsy.
\<close>

definition calculateSystemLosses :: "number \<Rightarrow> number option \<Rightarrow> number" where
  "calculateSystemLosses temperature' humidity =
     (let losses = 0.14;
          losses = (if temperature' > 35 then losses + 0.02
                    else if temperature' < - 10 then losses + 0.01
                    else losses);
          losses = (case humidity of
                      None \<Rightarrow> losses
                    | Some h \<Rightarrow> if h \<noteq> 0 \<and> h > 80 then losses + 0.01 else losses)
      in min losses 0.3)"

section \<open>Rounding to binary64\<close>

text \<open>
  A binary64 value has a significand of 53 bits and an exponent between \<open>-1022\<close>
  and \<open>1023\<close>; the smallest positive one is \<open>2 powi - 1074\<close>. Every arithmetic
  operation of JavaScript returns the binary64 value nearest to the exact result, a tie
  going to the value with the even significand.

  \<open>spacing x\<close> is the distance between neighbouring binary64 values around
  \<open>x\<close>: with \<open>n\<close> the number of whole multiples of \<open>2 powi - 1074\<close> in
  \<open>\<bar>x\<bar>\<close>, it is \<open>2 powi - 1074\<close> as long as \<open>n\<close> has at most 53 bits and
  doubles with every further bit. \<open>binary64 x\<close> is the multiple of that spacing nearest
  to \<open>x\<close>, or \<open>None\<close> where JavaScript returns an infinity.
\<close>

definition round_half_even :: "real \<Rightarrow> int" where
  "round_half_even q =
     (let f = \<lfloor>q\<rfloor>; r = q - of_int f
      in if r < 1 / 2 then f else if 1 / 2 < r then f + 1 else if even f then f else f + 1)"

definition spacing :: "real \<Rightarrow> real" where
  "spacing x = 2 powi (max 53 (bitlen \<lfloor>\<bar>x\<bar> * 2 ^ 1074\<rfloor>) - 1127)"

definition binary64 :: "real \<Rightarrow> real option" where
  "binary64 x =
     (let r = of_int (round_half_even (x / spacing x)) * spacing x
      in if \<bar>r\<bar> < 2 ^ 1024 then Some r else None)"

text \<open>
  \<open>values.reduce((sum, val) => sum + val, 0)\<close> with the rounding of every
  addition, and the \<open>dailyIrradiance\<close> of \<open>calculateMetrics\<close>, that sum divided
  by \<open>values.length\<close>, with the rounding of the division. The readings are binary64
  values themselves. \<open>peakOutput\<close> is one of the readings, so \<open>Math_max\<close> needs no
  rounding.
\<close>

definition reduce_sum_binary64 :: "number list \<Rightarrow> number option" where
  "reduce_sum_binary64 values =
     foldl (\<lambda>sum val. case sum of None \<Rightarrow> None | Some s \<Rightarrow> binary64 (s + val))
       (Some 0) values"

definition dailyIrradiance_binary64 :: "number list \<Rightarrow> number option" where
  "dailyIrradiance_binary64 irradianceValues =
     (case reduce_sum_binary64 irradianceValues of
        None \<Rightarrow> None
      | Some s \<Rightarrow> if irradianceValues = [] then None
                  else binary64 (s / real (length irradianceValues)))"

text \<open>The three messages of the first advisory of \<open>generateRecommendations\<close>.\<close>

definition tierMessages :: "string list" where
  "tierMessages = [''Excellent solar resource - ideal for space missions'',
                   ''Good solar resource - suitable for most applications'',
                   ''Consider high-efficiency panels or backup power systems'']"

section \<open>Auxiliary facts\<close>

lemma foldl_add_acc: "foldl (\<lambda>sum val. sum + val) a xs = a + sum_list (xs :: real list)"
  by (induction xs arbitrary: a) (simp_all add: algebra_simps)

lemma reduce_sum_eq: "reduce_sum xs = sum_list xs"
  by (simp add: reduce_sum_def foldl_add_acc)

lemma tempLoss_nonneg: "0 \<le> tempLoss t"
  by (simp add: tempLoss_def)

lemma tempLoss_pos_iff: "0 < tempLoss t \<longleftrightarrow> t < 25"
  by (simp add: tempLoss_def Let_def max_def mult_less_0_iff zero_less_mult_iff not_le)

lemma sum_list_le_length_Max:
  fixes xs :: "real list"
  shows "sum_list xs \<le> real (length xs) * Max (set xs)"
proof -
  have "sum_list (map (\<lambda>x. x) xs) \<le> sum_list (map (\<lambda>x. Max (set xs)) xs)"
    by (rule sum_list_mono) simp
  then show ?thesis by (simp add: sum_list_triv)
qed

lemma mean_le_Math_max:
  assumes "xs \<noteq> []"
  shows "reduce_sum xs / real (length xs) \<le> Math_max xs"
proof -
  have "0 < real (length xs)" using assms by simp
  then show ?thesis
    using sum_list_le_length_Max [of xs]
    by (simp add: reduce_sum_eq Math_max_def pos_divide_le_eq mult.commute)
qed

text \<open>
  Between \<open>2 powi e\<close> and \<open>2 powi (e + 1)\<close>, for an exponent of the normal range,
  the spacing is \<open>2 powi (e - 52)\<close>: 53 significant bits.
\<close>

lemma spacing_normal:
  assumes lo: "2 powi e \<le> \<bar>x\<bar>" and hi: "\<bar>x\<bar> < 2 powi (e + 1)" and e: "- 1022 \<le> e"
  shows "spacing x = 2 powi (e - 52)"
proof -
  define k where "k = nat (e + 1074)"
  define n where "n = \<lfloor>\<bar>x\<bar> * 2 ^ 1074\<rfloor>"
  have k: "int k = e + 1074" using e by (simp add: k_def)
  have p: "(2::real) ^ 1074 = 2 powi 1074" by (simp add: power_int_def)
  have "(2::real) ^ k = 2 powi (e + 1074)"
    using k by (metis power_int_of_nat)
  also have "\<dots> = 2 powi e * 2 ^ 1074" by (simp add: power_int_add p)
  also have "\<dots> \<le> \<bar>x\<bar> * 2 ^ 1074" using lo by simp
  finally have "real_of_int (2 ^ k) \<le> \<bar>x\<bar> * 2 ^ 1074" by simp
  then have low: "2 ^ k \<le> n" unfolding n_def by (simp only: le_floor_iff)
  have "\<bar>x\<bar> * 2 ^ 1074 < 2 powi (e + 1) * 2 ^ 1074" using hi by simp
  also have "\<dots> = 2 powi (e + 1 + 1074)" by (simp add: power_int_add p)
  also have "\<dots> = 2 ^ Suc k"
    using k by (metis power_int_of_nat of_nat_Suc add.commute add.assoc)
  finally have "\<bar>x\<bar> * 2 ^ 1074 < real_of_int (2 ^ Suc k)" by simp
  then have high: "n < 2 ^ Suc k" unfolding n_def by (simp only: floor_less_iff)
  have "bitlen n \<le> int (Suc k)"
    using high by (simp only: bitlen_le_iff_power nat_int) simp
  moreover have "int (Suc k) \<le> bitlen n"
    using low by (simp only: bitlen_ge_iff_power nat_int) simp
  ultimately have "bitlen n = e + 1075" using k by simp
  then show ?thesis
    unfolding spacing_def n_def [symmetric] using e by simp
qed

text \<open>
  The steps of the mean of three readings of \<open>0.1\<close>: the literal, the three additions
  of the sum, and the division by 3.
\<close>

lemma spacing_tenth: "spacing (1 / 10) = 1 / 72057594037927936"
  using spacing_normal [of "- 4" "1 / 10"] by simp

lemma binary64_tenth: "binary64 (1 / 10) = Some (3602879701896397 / 36028797018963968)"
  by (simp add: binary64_def round_half_even_def Let_def spacing_tenth)

lemma spacing_sum1: "spacing (3602879701896397 / 36028797018963968) = 1 / 72057594037927936"
  using spacing_normal [of "- 4" "3602879701896397 / 36028797018963968"] by simp

lemma binary64_sum1:
  "binary64 (3602879701896397 / 36028797018963968)
     = Some (3602879701896397 / 36028797018963968)"
  by (simp add: binary64_def round_half_even_def Let_def spacing_sum1)

lemma spacing_sum2: "spacing (3602879701896397 / 18014398509481984) = 1 / 36028797018963968"
  using spacing_normal [of "- 3" "3602879701896397 / 18014398509481984"] by simp

lemma binary64_sum2:
  "binary64 (3602879701896397 / 18014398509481984)
     = Some (3602879701896397 / 18014398509481984)"
  by (simp add: binary64_def round_half_even_def Let_def spacing_sum2)

lemma spacing_sum3: "spacing (10808639105689191 / 36028797018963968) = 1 / 18014398509481984"
  using spacing_normal [of "- 2" "10808639105689191 / 36028797018963968"] by simp

lemma binary64_sum3:
  "binary64 (10808639105689191 / 36028797018963968)
     = Some (1351079888211149 / 4503599627370496)"
  by (simp add: binary64_def round_half_even_def Let_def spacing_sum3)

lemma spacing_mean: "spacing (1351079888211149 / 13510798882111488) = 1 / 72057594037927936"
  using spacing_normal [of "- 4" "1351079888211149 / 13510798882111488"] by simp

lemma binary64_mean:
  "binary64 (1351079888211149 / 13510798882111488)
     = Some (7205759403792795 / 72057594037927936)"
  by (simp add: binary64_def round_half_even_def Let_def spacing_mean)

lemmas mission_defs = calculateMissionEnergy_def generateRecommendations_def Let_def

lemma tier_members:
  "''Excellent solar resource - ideal for space missions'' \<in> set tierMessages"
  "''Good solar resource - suitable for most applications'' \<in> set tierMessages"
  "''Consider high-efficiency panels or backup power systems'' \<in> set tierMessages"
  by (simp_all add: tierMessages_def)

lemma other_members:
  "''High temperatures detected - implement cooling systems'' \<notin> set tierMessages"
  "''Extreme cold conditions - use cold-weather rated equipment'' \<notin> set tierMessages"
  "''Large battery system required - consider modular design'' \<notin> set tierMessages"
  "''Energy output below mission requirements - increase panel area'' \<notin> set tierMessages"
  "''Consider upgrading to higher efficiency panels (>20%)'' \<notin> set tierMessages"
  by (simp_all add: tierMessages_def)

lemmas eval_defs = calculateMetrics_def Object_values_def reduce_sum_def Math_max_def
  calculateVariance_def tempLoss_def Let_def

text \<open>What \<open>calculateMetrics\<close> returns on a series with readings of both kinds.\<close>

lemma calculateMetrics_Some:
  assumes "Object_values (ALLSKY_SFC_SW_DWN (parameter nasaData)) \<noteq> []"
      and "Object_values (T2M (parameter nasaData)) \<noteq> []"
  shows "calculateMetrics nasaData =
     Some \<lparr>dailyIrradiance = reduce_sum (Object_values (ALLSKY_SFC_SW_DWN (parameter nasaData)))
                / real (length (Object_values (ALLSKY_SFC_SW_DWN (parameter nasaData)))),
           efficiency = max 0.1 (1 + tempLoss (reduce_sum (Object_values (T2M (parameter nasaData)))
                / real (length (Object_values (T2M (parameter nasaData)))))) * 100,
           temperature = reduce_sum (Object_values (T2M (parameter nasaData)))
                / real (length (Object_values (T2M (parameter nasaData)))),
           peakOutput = Math_max (Object_values (ALLSKY_SFC_SW_DWN (parameter nasaData))),
           averageOutput = reduce_sum (Object_values (ALLSKY_SFC_SW_DWN (parameter nasaData)))
                / real (length (Object_values (ALLSKY_SFC_SW_DWN (parameter nasaData)))),
           variance = calculateVariance (Object_values (ALLSKY_SFC_SW_DWN (parameter nasaData)))\<rparr>"
  using assms by (simp add: calculateMetrics_def Let_def)

lemma sqrt_two_thirds: "\<bar>sqrt (2 / 3) - 0.8165\<bar> < 0.0001"
proof -
  have "sqrt (2 / 3) < 0.8166"
    by (rule real_less_lsqrt) (simp_all add: power2_eq_square)
  moreover have "0.8164 < sqrt (2 / 3)"
    by (rule real_less_rsqrt) (simp add: power2_eq_square)
  ultimately show ?thesis by linarith
qed

section \<open>The efficiency returned by calculateMetrics\<close>

text \<open>
  C1 (efficiency lies in [10, 100]), evaluated on one irradiance reading of 5 and one
  temperature reading of 0 degrees: the mean temperature is 25 degrees under the
  reference, \<open>tempLoss\<close> is \<open>0.1\<close> and the efficiency is 110, above the
  upper bound of the claim.
\<close>

theorem C1_efficiency_110_at_zero_degrees:
  "calculateMetrics \<lparr>coordinates = (0, 0),
        parameter = \<lparr>ALLSKY_SFC_SW_DWN = [(''d1'', 5)], T2M = [(''d1'', 0)],
                      RH2M = None, WS10M = None, CLOUD_AMT = None\<rparr>\<rparr>
   = Some \<lparr>dailyIrradiance = 5, efficiency = 110, temperature = 0, peakOutput = 5,
            averageOutput = 5, variance = 0\<rparr>"
  by (simp add: eval_defs)

text \<open>
  C2 (above 25 degrees the efficiency is strictly below 100, at or below 25 degrees it
  is exactly 100), evaluated twice: at a mean temperature of 35 degrees the efficiency
  is exactly 100, not below it, and at a mean temperature of 15 degrees it is 104,
  not 100.
\<close>

theorem C2_efficiency_at_35_and_15_degrees:
  "calculateMetrics \<lparr>coordinates = (0, 0),
        parameter = \<lparr>ALLSKY_SFC_SW_DWN = [(''d1'', 5)], T2M = [(''d1'', 35)],
                      RH2M = None, WS10M = None, CLOUD_AMT = None\<rparr>\<rparr>
   = Some \<lparr>dailyIrradiance = 5, efficiency = 100, temperature = 35, peakOutput = 5,
            averageOutput = 5, variance = 0\<rparr>
   \<and> calculateMetrics \<lparr>coordinates = (0, 0),
        parameter = \<lparr>ALLSKY_SFC_SW_DWN = [(''d1'', 5)], T2M = [(''d1'', 15)],
                      RH2M = None, WS10M = None, CLOUD_AMT = None\<rparr>\<rparr>
   = Some \<lparr>dailyIrradiance = 5, efficiency = 104, temperature = 15, peakOutput = 5,
            averageOutput = 5, variance = 0\<rparr>"
  by (simp add: eval_defs)

text \<open>
  C3: on every series with at least one irradiance and one temperature reading,
  \<open>calculateMetrics\<close> returns metrics whose efficiency is at least 100. The
  reason is \<open>tempLoss\<close>: it is never negative, it is positive exactly when the mean
  temperature is below 25, so the clamp \<open>max 0.1 (1 + tempLoss)\<close> returns its second
  argument and the efficiency is \<open>(1 + tempLoss) * 100\<close>.
\<close>

theorem C3_efficiency_at_least_100:
  assumes "Object_values (ALLSKY_SFC_SW_DWN (parameter nasaData)) \<noteq> []"
      and "Object_values (T2M (parameter nasaData)) \<noteq> []"
  shows "\<exists>m. calculateMetrics nasaData = Some m
           \<and> 100 \<le> SolarMetrics.efficiency m
           \<and> 0 \<le> tempLoss (temperature m)
           \<and> (0 < tempLoss (temperature m) \<longleftrightarrow> temperature m < 25)
           \<and> max 0.1 (1 + tempLoss (temperature m)) = 1 + tempLoss (temperature m)
           \<and> SolarMetrics.efficiency m = (1 + tempLoss (temperature m)) * 100"
proof -
  define t where "t = reduce_sum (Object_values (T2M (parameter nasaData)))
                / real (length (Object_values (T2M (parameter nasaData))))"
  have nn: "0 \<le> tempLoss t" by (rule tempLoss_nonneg)
  then have clamp: "max 0.1 (1 + tempLoss t) = 1 + tempLoss t" by (simp add: max_def)
  have "100 \<le> (1 + tempLoss t) * 100" using nn by simp
  with nn clamp show ?thesis
    unfolding calculateMetrics_Some [OF assms] t_def [symmetric]
    by (simp add: tempLoss_pos_iff)
qed

theorem C3_efficiency_at_least_100_witness:
  "\<exists>m. calculateMetrics \<lparr>coordinates = (0, 0),
        parameter = \<lparr>ALLSKY_SFC_SW_DWN = [(''d1'', 5)], T2M = [(''d1'', 30)],
                      RH2M = None, WS10M = None, CLOUD_AMT = None\<rparr>\<rparr> = Some m
           \<and> 100 \<le> SolarMetrics.efficiency m
           \<and> 0 \<le> tempLoss (temperature m)
           \<and> (0 < tempLoss (temperature m) \<longleftrightarrow> temperature m < 25)
           \<and> max 0.1 (1 + tempLoss (temperature m)) = 1 + tempLoss (temperature m)
           \<and> SolarMetrics.efficiency m = (1 + tempLoss (temperature m)) * 100"
  using C3_efficiency_at_least_100 [of "\<lparr>coordinates = (0, 0),
        parameter = \<lparr>ALLSKY_SFC_SW_DWN = [(''d1'', 5)], T2M = [(''d1'', 30)],
                      RH2M = None, WS10M = None, CLOUD_AMT = None\<rparr>\<rparr>"]
  by (simp add: Object_values_def)

section \<open>Worked example of the aggregation\<close>

text \<open>
  C4: for irradiance readings 5, 6, 7 and temperature readings 25, 35, 45,
  \<open>calculateMetrics\<close> returns mean irradiance 6, mean temperature 35, peak 7,
  average output 6 and, as \<open>variance\<close>, the population standard deviation
  \<open>sqrt (2 / 3)\<close>, which is 0.8165 to four decimal places; \<open>tempLoss\<close> at
  35 degrees is 0, so the efficiency is 100.
\<close>

theorem C4_worked_example_aggregation:
  "calculateMetrics \<lparr>coordinates = c,
        parameter = \<lparr>ALLSKY_SFC_SW_DWN = [(''d1'', 5.0), (''d2'', 6.0), (''d3'', 7.0)],
                      T2M = [(''d1'', 25), (''d2'', 35), (''d3'', 45)],
                      RH2M = rh, WS10M = ws, CLOUD_AMT = cl\<rparr>\<rparr>
   = Some \<lparr>dailyIrradiance = 6.0, efficiency = 100, temperature = 35.0, peakOutput = 7.0,
            averageOutput = 6.0, variance = sqrt (2 / 3)\<rparr>
   \<and> tempLoss 35 = max 0 ((35 - 25) * - 0.004)
   \<and> tempLoss 35 = 0
   \<and> \<bar>sqrt (2 / 3) - 0.8165\<bar> < 0.0001"
  using sqrt_two_thirds by (simp add: eval_defs)

section \<open>calculateMissionEnergy\<close>

text \<open>
  C5: for all metrics and parameters, \<open>calculateMissionEnergy\<close> returns
  \<open>dailyAverage = dailyIrradiance * panelArea * systemEfficiency * (efficiency / 100)\<close>,
  \<open>totalEnergyOutput = dailyAverage * missionDuration\<close>,
  \<open>batteryRequired = (dailyAverage / 24) * 350\<close> and
  \<open>missionViability = (totalEnergyOutput \<ge> 1000)\<close>. For a daily irradiance of 6, an
  efficiency of 90, a panel area of 100, a system efficiency of 0.22 and a duration of
  14 days, whatever the other fields are, the daily average is 118.8, the total 1663.2,
  the mission is viable and the battery required is 1732.5.
\<close>

theorem C5_mission_energy_formulas:
  "dailyAverage (calculateMissionEnergy metrics parameters)
     = dailyIrradiance metrics * panelArea parameters * systemEfficiency parameters
         * (SolarMetrics.efficiency metrics / 100)
   \<and> totalEnergyOutput (calculateMissionEnergy metrics parameters)
     = dailyAverage (calculateMissionEnergy metrics parameters) * missionDuration parameters
   \<and> batteryRequired (calculateMissionEnergy metrics parameters)
     = (dailyAverage (calculateMissionEnergy metrics parameters) / 24) * 350
   \<and> missionViability (calculateMissionEnergy metrics parameters)
     = (totalEnergyOutput (calculateMissionEnergy metrics parameters) \<ge> 1000)
   \<and> dailyAverage (calculateMissionEnergy
          \<lparr>dailyIrradiance = 6.0, efficiency = 90, temperature = t, peakOutput = pk,
             averageOutput = av, variance = v\<rparr>
          \<lparr>panelArea = 100, systemEfficiency = 0.22, missionDuration = 14,
             batteryCapacity = bc\<rparr>)
       = 118.8
   \<and> totalEnergyOutput (calculateMissionEnergy
          \<lparr>dailyIrradiance = 6.0, efficiency = 90, temperature = t, peakOutput = pk,
             averageOutput = av, variance = v\<rparr>
          \<lparr>panelArea = 100, systemEfficiency = 0.22, missionDuration = 14,
             batteryCapacity = bc\<rparr>)
       = 1663.2
   \<and> missionViability (calculateMissionEnergy
          \<lparr>dailyIrradiance = 6.0, efficiency = 90, temperature = t, peakOutput = pk,
             averageOutput = av, variance = v\<rparr>
          \<lparr>panelArea = 100, systemEfficiency = 0.22, missionDuration = 14,
             batteryCapacity = bc\<rparr>)
   \<and> batteryRequired (calculateMissionEnergy
          \<lparr>dailyIrradiance = 6.0, efficiency = 90, temperature = t, peakOutput = pk,
             averageOutput = av, variance = v\<rparr>
          \<lparr>panelArea = 100, systemEfficiency = 0.22, missionDuration = 14,
             batteryCapacity = bc\<rparr>)
       = 1732.5"
  by (simp add: calculateMissionEnergy_def Let_def)

text \<open>
  C6: the \<open>peakOutput\<close> of the result is the \<open>peakOutput\<close> of the metrics times
  panel area times system efficiency. The efficiency \<open>e\<close> of the metrics does not occur
  in it, while it scales the daily average by \<open>e / 100\<close>.
\<close>

theorem C6_peak_output_without_efficiency:
  "CalculationResults.peakOutput (calculateMissionEnergy metrics parameters)
     = SolarMetrics.peakOutput metrics * panelArea parameters * systemEfficiency parameters
   \<and> CalculationResults.peakOutput (calculateMissionEnergy
          \<lparr>dailyIrradiance = d, efficiency = e, temperature = t, peakOutput = pk,
             averageOutput = av, variance = v\<rparr> parameters)
     = pk * panelArea parameters * systemEfficiency parameters
   \<and> dailyAverage (calculateMissionEnergy
          \<lparr>dailyIrradiance = d, efficiency = e, temperature = t, peakOutput = pk,
             averageOutput = av, variance = v\<rparr> parameters)
     = d * panelArea parameters * systemEfficiency parameters * (e / 100)"
  by (simp add: calculateMissionEnergy_def Let_def)

section \<open>Recommendations\<close>

text \<open>
  C7: at a daily irradiance of exactly 6.5 the first recommendation is the message of the
  good resource, not that of the excellent one; at exactly 4.5 it is the message that
  advises high-efficiency panels or backup power, not that of the good resource. The
  comparisons are strict.
\<close>

theorem C7_tier_boundaries:
  "hd (recommendations (calculateMissionEnergy
         \<lparr>dailyIrradiance = 6.5, efficiency = e, temperature = t, peakOutput = pk,
            averageOutput = av, variance = v\<rparr> parameters))
     = ''Good solar resource - suitable for most applications''
   \<and> hd (recommendations (calculateMissionEnergy
         \<lparr>dailyIrradiance = 6.5, efficiency = e, temperature = t, peakOutput = pk,
            averageOutput = av, variance = v\<rparr> parameters))
     \<noteq> ''Excellent solar resource - ideal for space missions''
   \<and> hd (recommendations (calculateMissionEnergy
         \<lparr>dailyIrradiance = 4.5, efficiency = e, temperature = t, peakOutput = pk,
            averageOutput = av, variance = v\<rparr> parameters))
     = ''Consider high-efficiency panels or backup power systems''
   \<and> hd (recommendations (calculateMissionEnergy
         \<lparr>dailyIrradiance = 4.5, efficiency = e, temperature = t, peakOutput = pk,
            averageOutput = av, variance = v\<rparr> parameters))
     \<noteq> ''Good solar resource - suitable for most applications''"
  by (simp add: mission_defs)

text \<open>
  C8: for all metrics and parameters the recommendations are, in this order, the
  resource-tier message (by daily irradiance: above 6.5, above 4.5, otherwise), the
  temperature message (above 35, else below -20, else none), the battery message when
  the battery required exceeds 2000, the panel-area message when the total energy
  output is below 1000, and the efficiency-upgrade message when the system efficiency
  is below 0.20. So the first recommendation is always one of the three resource-tier
  messages and the list holds exactly one of them. In particular, when the daily
  irradiance is 3, the temperature 40, the system efficiency 0.15 and the battery
  required exceeds 2000, the list is the third resource-tier message, the cooling
  message, the battery message, the panel-area message if the total energy output is
  below 1000, and the efficiency-upgrade message.
\<close>

theorem C8_advisory_order:
  "recommendations (calculateMissionEnergy metrics parameters)
     = (if dailyIrradiance metrics > 6.5
        then [''Excellent solar resource - ideal for space missions'']
        else if dailyIrradiance metrics > 4.5
        then [''Good solar resource - suitable for most applications'']
        else [''Consider high-efficiency panels or backup power systems''])
       @ (if temperature metrics > 35
          then [''High temperatures detected - implement cooling systems'']
          else if temperature metrics < - 20
          then [''Extreme cold conditions - use cold-weather rated equipment'']
          else [])
       @ (if batteryRequired (calculateMissionEnergy metrics parameters) > 2000
          then [''Large battery system required - consider modular design'']
          else [])
       @ (if totalEnergyOutput (calculateMissionEnergy metrics parameters) < 1000
          then [''Energy output below mission requirements - increase panel area'']
          else [])
       @ (if systemEfficiency parameters < 0.20
          then [''Consider upgrading to higher efficiency panels (>20%)'']
          else [])
   \<and> (dailyIrradiance metrics = 3.0 \<and> temperature metrics = 40
     \<and> systemEfficiency parameters = 0.15
     \<and> batteryRequired (calculateMissionEnergy metrics parameters) > 2000
    \<longrightarrow> recommendations (calculateMissionEnergy metrics parameters)
        = [''Consider high-efficiency panels or backup power systems'',
           ''High temperatures detected - implement cooling systems'',
           ''Large battery system required - consider modular design'']
          @ (if totalEnergyOutput (calculateMissionEnergy metrics parameters) < 1000
             then [''Energy output below mission requirements - increase panel area'']
             else [])
          @ [''Consider upgrading to higher efficiency panels (>20%)''])
   \<and> hd (recommendations (calculateMissionEnergy metrics parameters)) \<in> set tierMessages
   \<and> length (filter (\<lambda>s. s \<in> set tierMessages)
              (recommendations (calculateMissionEnergy metrics parameters))) = 1"
proof -
  have general: "recommendations (calculateMissionEnergy metrics parameters)
     = (if dailyIrradiance metrics > 6.5
        then [''Excellent solar resource - ideal for space missions'']
        else if dailyIrradiance metrics > 4.5
        then [''Good solar resource - suitable for most applications'']
        else [''Consider high-efficiency panels or backup power systems''])
       @ (if temperature metrics > 35
          then [''High temperatures detected - implement cooling systems'']
          else if temperature metrics < - 20
          then [''Extreme cold conditions - use cold-weather rated equipment'']
          else [])
       @ (if batteryRequired (calculateMissionEnergy metrics parameters) > 2000
          then [''Large battery system required - consider modular design'']
          else [])
       @ (if totalEnergyOutput (calculateMissionEnergy metrics parameters) < 1000
          then [''Energy output below mission requirements - increase panel area'']
          else [])
       @ (if systemEfficiency parameters < 0.20
          then [''Consider upgrading to higher efficiency panels (>20%)'']
          else [])"
    by (simp add: mission_defs ac_simps)
  have particular: "(dailyIrradiance metrics = 3.0 \<and> temperature metrics = 40
     \<and> systemEfficiency parameters = 0.15
     \<and> batteryRequired (calculateMissionEnergy metrics parameters) > 2000
    \<longrightarrow> recommendations (calculateMissionEnergy metrics parameters)
        = [''Consider high-efficiency panels or backup power systems'',
           ''High temperatures detected - implement cooling systems'',
           ''Large battery system required - consider modular design'']
          @ (if totalEnergyOutput (calculateMissionEnergy metrics parameters) < 1000
             then [''Energy output below mission requirements - increase panel area'']
             else [])
          @ [''Consider upgrading to higher efficiency panels (>20%)''])
   \<and> hd (recommendations (calculateMissionEnergy metrics parameters)) \<in> set tierMessages
   \<and> length (filter (\<lambda>s. s \<in> set tierMessages)
              (recommendations (calculateMissionEnergy metrics parameters))) = 1"
    by (simp add: mission_defs tier_members other_members)
  from general particular show ?thesis by (rule conjI)
qed

theorem C8_advisory_order_witness:
  "dailyIrradiance \<lparr>dailyIrradiance = 3.0, efficiency = 100, temperature = 40, peakOutput = 3.5,
              averageOutput = 3.0, variance = 0.4\<rparr> = 3.0
   \<and> temperature \<lparr>dailyIrradiance = 3.0, efficiency = 100, temperature = 40, peakOutput = 3.5,
              averageOutput = 3.0, variance = 0.4\<rparr> = 40
   \<and> systemEfficiency \<lparr>panelArea = 400, systemEfficiency = 0.15, missionDuration = 5,
              batteryCapacity = None\<rparr> = 0.15
   \<and> batteryRequired (calculateMissionEnergy \<lparr>dailyIrradiance = 3.0, efficiency = 100, temperature = 40, peakOutput = 3.5,
              averageOutput = 3.0, variance = 0.4\<rparr> \<lparr>panelArea = 400, systemEfficiency = 0.15, missionDuration = 5,
              batteryCapacity = None\<rparr>) = 2625
   \<and> totalEnergyOutput (calculateMissionEnergy \<lparr>dailyIrradiance = 3.0, efficiency = 100, temperature = 40, peakOutput = 3.5,
              averageOutput = 3.0, variance = 0.4\<rparr> \<lparr>panelArea = 400, systemEfficiency = 0.15, missionDuration = 5,
              batteryCapacity = None\<rparr>) = 900
   \<and> recommendations (calculateMissionEnergy \<lparr>dailyIrradiance = 3.0, efficiency = 100, temperature = 40, peakOutput = 3.5,
              averageOutput = 3.0, variance = 0.4\<rparr> \<lparr>panelArea = 400, systemEfficiency = 0.15, missionDuration = 5,
              batteryCapacity = None\<rparr>)
        = [''Consider high-efficiency panels or backup power systems'',
           ''High temperatures detected - implement cooling systems'',
           ''Large battery system required - consider modular design'',
           ''Energy output below mission requirements - increase panel area'',
           ''Consider upgrading to higher efficiency panels (>20%)'']"
  using C8_advisory_order [of "\<lparr>dailyIrradiance = 3.0, efficiency = 100, temperature = 40, peakOutput = 3.5,
              averageOutput = 3.0, variance = 0.4\<rparr>" "\<lparr>panelArea = 400, systemEfficiency = 0.15, missionDuration = 5,
              batteryCapacity = None\<rparr>"]
  by (simp add: mission_defs)

section \<open>Peak and mean irradiance\<close>

text \<open>
  C9, as JavaScript computes it: three irradiance readings of \<open>0.1\<close>, the binary64
  value \<open>3602879701896397 / 2 ^ 55\<close>. The rounded sum is \<open>5404319552844596 / 2 ^ 54\<close>
  and the rounded mean is \<open>7205759403792795 / 2 ^ 56\<close>, printed
  \<open>0.10000000000000002\<close>, one spacing above the readings and so above their maximum.
\<close>

theorem C9_binary64_mean_above_peak:
  "binary64 (1 / 10) = Some (3602879701896397 / 36028797018963968)
   \<and> reduce_sum_binary64 [3602879701896397 / 36028797018963968,
        3602879701896397 / 36028797018963968, 3602879701896397 / 36028797018963968]
       = Some (5404319552844596 / 18014398509481984)
   \<and> dailyIrradiance_binary64 [3602879701896397 / 36028797018963968,
        3602879701896397 / 36028797018963968, 3602879701896397 / 36028797018963968]
       = Some (7205759403792795 / 72057594037927936)
   \<and> Math_max [3602879701896397 / 36028797018963968,
        3602879701896397 / 36028797018963968, 3602879701896397 / 36028797018963968]
       = 3602879701896397 / 36028797018963968
   \<and> \<not> (7205759403792795 / 72057594037927936
          \<le> Math_max [3602879701896397 / 36028797018963968,
                3602879701896397 / 36028797018963968, 3602879701896397 / 36028797018963968])"
  by (simp add: dailyIrradiance_binary64_def reduce_sum_binary64_def Math_max_def
      binary64_tenth binary64_sum1 binary64_sum2 binary64_sum3 binary64_mean)

text \<open>
  C9 with exact arithmetic: on every series with at least one irradiance and one
  temperature reading, the \<open>peakOutput\<close> of the metrics is at least their
  \<open>dailyIrradiance\<close>, the maximum of the readings being at least their mean.
\<close>

theorem C9_peak_at_least_mean_exact:
  assumes "Object_values (ALLSKY_SFC_SW_DWN (parameter nasaData)) \<noteq> []"
      and "Object_values (T2M (parameter nasaData)) \<noteq> []"
  shows "\<exists>m. calculateMetrics nasaData = Some m
           \<and> dailyIrradiance m \<le> SolarMetrics.peakOutput m"
  unfolding calculateMetrics_Some [OF assms]
  using mean_le_Math_max [OF assms(1)] by simp

theorem C9_peak_at_least_mean_exact_witness:
  "\<exists>m. calculateMetrics \<lparr>coordinates = (0, 0),
        parameter = \<lparr>ALLSKY_SFC_SW_DWN = [(''d1'', 5), (''d2'', 7)], T2M = [(''d1'', 30)],
                      RH2M = None, WS10M = None, CLOUD_AMT = None\<rparr>\<rparr> = Some m
           \<and> dailyIrradiance m \<le> SolarMetrics.peakOutput m"
  using C9_peak_at_least_mean_exact [of "\<lparr>coordinates = (0, 0),
        parameter = \<lparr>ALLSKY_SFC_SW_DWN = [(''d1'', 5), (''d2'', 7)], T2M = [(''d1'', 30)],
                      RH2M = None, WS10M = None, CLOUD_AMT = None\<rparr>\<rparr>"]
  by (simp add: Object_values_def)

section \<open>calculateSystemLosses\<close>

text \<open>
  C10: the losses are 0.14, plus 0.02 when the temperature is above 35, plus 0.01 when
  it is below -10, plus 0.01 when a humidity is given and exceeds 80. The two
  temperature terms never apply together (their sum is the value of the source's
  if / else-if), and the result is at most 0.30.
\<close>

theorem C10_system_losses:
  "calculateSystemLosses temperature' humidity
     = 0.14 + (if temperature' > 35 then 0.02 else 0)
            + (if temperature' < - 10 then 0.01 else 0)
            + (case humidity of None \<Rightarrow> 0 | Some h \<Rightarrow> if h > 80 then 0.01 else 0)
   \<and> (if temperature' > 35 then 0.02 else 0) + (if temperature' < - 10 then 0.01 else 0)
     = (if temperature' > 35 then 0.02 else if temperature' < - 10 then 0.01 else (0::real))
   \<and> calculateSystemLosses temperature' humidity \<le> 0.30"
  by (simp add: calculateSystemLosses_def Let_def split: option.splits)

end
